theory Spec2Isabelle
  imports Main
begin

section \<open>The offline compiler: data model\<close>

text \<open>
  The development embeds the module that declares \<open>OfflineCompiler\<close>
  (\<open>src/unnamed/part_000\<close>). JavaScript strings are modelled as \<open>string\<close>; the only
  character the code inspects is the dot. Source names that start with an underscore
  (\<open>_splitSuffix\<close>, \<open>_ngfactoryModuleUrl\<close>, ...) lose it here, because an Isabelle
  name starts with a letter. Where two classes have a field of the same name
  (\<open>moduleUrl\<close>, \<open>statements\<close>, \<open>dependencies\<close>, \<open>template\<close>), the field is written
  with its record's name in front. The source's parameter \<open>comp\<close> is written
  \<open>cmp\<close>, since \<open>comp\<close> is function composition in HOL; a local variable that has
  the name of a field (\<open>moduleUrl\<close>, \<open>statements\<close>, \<open>directives\<close>, \<open>pipes\<close>) is
  written with a prime, and the successive contents of an array that the source extends
  in place are numbered (\<open>statements0\<close>, \<open>statements1\<close>, ...).
\<close>

subsection \<open>String primitives\<close>

text \<open>\<open>String.prototype.lastIndexOf\<close> for a one-character needle: the greatest index
  holding the character, or \<open>-1\<close>.\<close>

primrec lastIndexOf_nat :: "string \<Rightarrow> char \<Rightarrow> nat option" where
  "lastIndexOf_nat [] c = None"
| "lastIndexOf_nat (x # xs) c =
     (case lastIndexOf_nat xs c of
        Some k \<Rightarrow> Some (Suc k)
      | None \<Rightarrow> if x = c then Some 0 else None)"

definition lastIndexOf :: "string \<Rightarrow> char \<Rightarrow> int" where
  "lastIndexOf s c = (case lastIndexOf_nat s c of None \<Rightarrow> - 1 | Some k \<Rightarrow> int k)"

text \<open>\<open>String.prototype.substring\<close>: both indices are clamped to the string, and
  swapped when the first is the greater; with one argument the end is the length.\<close>

definition clampIndex :: "string \<Rightarrow> int \<Rightarrow> nat" where
  "clampIndex s i = min (nat i) (length s)"

definition substring :: "string \<Rightarrow> int \<Rightarrow> int \<Rightarrow> string" where
  "substring s i j =
     (let a = clampIndex s i; b = clampIndex s j
      in take (max a b - min a b) (drop (min a b) s))"

definition substring_from :: "string \<Rightarrow> int \<Rightarrow> string" where
  "substring_from s i = drop (clampIndex s i) s"

subsection \<open>Metadata\<close>

text \<open>The metadata classes are declared in \<open>./compile_metadata\<close>; the records carry the
  fields this module reads or writes. \<open>runtime\<close> stands for the runtime class an
  identifier refers to, by name.\<close>

record CompileIdentifierMetadata =
  name :: string
  runtime :: "string option"
  moduleUrl :: string

record CompileTemplateMetadata =
  template :: string

record CompileDirectiveMetadata =
  type :: CompileIdentifierMetadata
  isComponent :: bool
  selector :: string
  template :: CompileTemplateMetadata

record SourceModule =
  moduleUrl :: string
  source :: string

record StyleSheetSourceWithImports =
  source :: SourceModule
  importedUrls :: "string list"

record 'p NormalizedComponentWithViewDirectives =
  component :: CompileDirectiveMetadata
  directives :: "CompileDirectiveMetadata list"
  pipes :: "'p list"

text \<open>A thrown value. This module throws a \<open>BaseException\<close> with a message; an exception
  of a collaborator is a value of the same type.\<close>

datatype error = BaseException string

subsection \<open>Naming rules\<close>

definition splitSuffix :: "string \<Rightarrow> string list" where
  "splitSuffix path =
     (let lastDot = lastIndexOf path CHR ''.''
      in if lastDot \<noteq> - 1
         then [substring path 0 lastDot, substring_from path lastDot]
         else [path, ''''])"

definition ngfactoryModuleUrl :: "CompileIdentifierMetadata \<Rightarrow> string" where
  "ngfactoryModuleUrl cmp =
     (let urlWithSuffix = splitSuffix (CompileIdentifierMetadata.moduleUrl cmp)
      in urlWithSuffix ! 0 @ ''.ngfactory'' @ urlWithSuffix ! 1)"

definition componentFactoryName :: "CompileIdentifierMetadata \<Rightarrow> string" where
  "componentFactoryName cmp = name cmp @ ''NgFactory''"

definition stylesModuleUrl :: "string \<Rightarrow> bool \<Rightarrow> string \<Rightarrow> string" where
  "stylesModuleUrl stylesheetUrl shim suffix =
     (if shim then stylesheetUrl @ ''.shim'' @ suffix else stylesheetUrl @ suffix)"

definition assertComponent :: "CompileDirectiveMetadata \<Rightarrow> error + unit" where
  "assertComponent meta =
     (if \<not> isComponent meta
      then Inl (BaseException
        (''Could not compile '' @ [CHR 0x27] @ name (type meta) @ [CHR 0x27]
           @ '' because it is not a component.''))
      else Inr ())"

subsection \<open>Generated code and placeholders\<close>

text \<open>The output AST lives in \<open>./output/output_ast\<close>. The component-factory declaration
  that \<open>compileTemplates\<close> builds is kept as the tree of the builder calls the source
  makes (\<open>o.variable\<close>, \<open>.set\<close>, \<open>o.importExpr\<close>, \<open>.instantiate\<close>, \<open>o.importType\<close>,
  \<open>o.literal\<close>, \<open>.toDeclStmt\<close>); an argument the source leaves out or passes as
  \<open>null\<close> is \<open>None\<close>. Statements made by the style and view compilers are opaque
  (\<open>CompiledStmt\<close>).\<close>

datatype TypeModifier = Const

datatype StmtModifier = Final

datatype OType =
  o_importType CompileIdentifierMetadata "OType list option" "TypeModifier list option"

datatype Expression =
    o_variable string
  | o_literal string
  | o_importExpr CompileIdentifierMetadata "OType list option"
  | o_instantiate Expression "Expression list" OType
  | o_set Expression Expression

datatype 'x Statement =
    o_toDeclStmt Expression "OType option" "StmtModifier list"
  | CompiledStmt 'x

text \<open>A placeholder is a \<open>CompileIdentifierMetadata\<close> object that generated statements
  refer to and that this module mutates in place. Placeholders live in a store, a
  dependency holds the address of its placeholder, and two dependencies may hold the same
  address. Component identifiers are only read by this module and are held by value.\<close>

type_synonym addr = nat

type_synonym heap = "addr \<Rightarrow> CompileIdentifierMetadata"

record StylesCompileDependency =
  moduleUrl :: string
  isShimmed :: bool
  valuePlaceholder :: addr

record 'x StylesCompileResult =
  statements :: "'x Statement list"
  stylesVar :: string
  dependencies :: "StylesCompileDependency list"

text \<open>The view compiler declares two dependency classes; the source tells them apart
  with \<open>instanceof\<close> and does nothing for an object of neither class
  (\<open>OtherDependency\<close>).\<close>

datatype ViewDependency =
    ViewFactoryDependency CompileDirectiveMetadata addr
  | ComponentFactoryDependency CompileIdentifierMetadata addr
  | OtherDependency addr

record 'x ViewCompileResult =
  statements :: "'x Statement list"
  viewFactoryVar :: string
  dependencies :: "ViewDependency list"

subsection \<open>Collaborators and state\<close>

text \<open>The outcome of the promise returned by \<open>XHR.get\<close>.\<close>

datatype 'a Promise = Resolved 'a | Rejected error | Pending

text \<open>The compiler's collaborators are given to its constructor and are not part of this
  module: they are parameters of the model, as are the imported functions
  \<open>createHostComponentMeta\<close> and \<open>assetUrl\<close>. The three calls made while a component
  is compiled (the style compiler, the template parser, the view compiler) throw on
  invalid input, and this module does not catch: each returns its result or the
  exception. The promise of \<open>XHR.get\<close> has its three outcomes. The other calls are
  modelled by the value they return. The emitter reads the placeholders its statements
  refer to, so it is given the store. \<open>'x\<close> is the type of compiled statements, \<open>'t\<close>
  of parsed templates, \<open>'p\<close> of pipe metadata.\<close>

record ('x, 't, 'p) OfflineCompiler =
  styleCompiler_compileComponent ::
    "CompileDirectiveMetadata \<Rightarrow> error + 'x StylesCompileResult"
  styleCompiler_compileStylesheet :: "string \<Rightarrow> string \<Rightarrow> bool \<Rightarrow> 'x StylesCompileResult"
  templateParser_parse ::
    "CompileDirectiveMetadata \<Rightarrow> string \<Rightarrow> CompileDirectiveMetadata list \<Rightarrow> 'p list
       \<Rightarrow> string \<Rightarrow> error + 't"
  viewCompiler_compileComponent ::
    "CompileDirectiveMetadata \<Rightarrow> 't \<Rightarrow> Expression \<Rightarrow> 'p list
       \<Rightarrow> error + 'x ViewCompileResult"
  outputEmitter_emitStatements ::
    "string \<Rightarrow> 'x Statement list \<Rightarrow> string list \<Rightarrow> heap \<Rightarrow> string"
  xhr_get :: "string \<Rightarrow> string Promise"
  createHostComponentMeta :: "CompileIdentifierMetadata \<Rightarrow> string \<Rightarrow> CompileDirectiveMetadata"
  assetUrl :: "string \<Rightarrow> string \<Rightarrow> string"

text \<open>Every call of a collaborator is recorded, in order, with its arguments.\<close>

datatype ('x, 't, 'p) Call =
    StyleCompiler_compileComponent CompileDirectiveMetadata
  | StyleCompiler_compileStylesheet string string bool
  | TemplateParser_parse CompileDirectiveMetadata string "CompileDirectiveMetadata list"
      "'p list" string
  | ViewCompiler_compileComponent CompileDirectiveMetadata 't Expression "'p list"
  | OutputEmitter_emitStatements string "'x Statement list" "string list"
  | XHR_get string

record ('x, 't, 'p) State =
  heap :: heap
  calls :: "('x, 't, 'p) Call list"

definition called :: "('x, 't, 'p) Call \<Rightarrow> ('x, 't, 'p) State \<Rightarrow> ('x, 't, 'p) State" where
  "called c s = s\<lparr>calls := calls s @ [c]\<rparr>"

section \<open>The offline compiler: operations\<close>

definition COMPONENT_FACTORY_IDENTIFIER ::
  "('x, 't, 'p) OfflineCompiler \<Rightarrow> CompileIdentifierMetadata" where
  "COMPONENT_FACTORY_IDENTIFIER this =
     \<lparr>name = ''ComponentFactory'', runtime = Some ''ComponentFactory'',
      moduleUrl = assetUrl this ''core'' ''linker/component_factory''\<rparr>"

subsection \<open>Placeholder resolution\<close>

fun resolveViewDependency :: "ViewDependency \<Rightarrow> heap \<Rightarrow> heap" where
  "resolveViewDependency (ViewFactoryDependency cmp placeholder) h =
     h(placeholder := (h placeholder)
        \<lparr>CompileIdentifierMetadata.moduleUrl := ngfactoryModuleUrl (type cmp)\<rparr>)"
| "resolveViewDependency (ComponentFactoryDependency cmp placeholder) h =
     (let h1 = h(placeholder := (h placeholder)\<lparr>name := componentFactoryName cmp\<rparr>)
      in h1(placeholder := (h1 placeholder)
           \<lparr>CompileIdentifierMetadata.moduleUrl := ngfactoryModuleUrl cmp\<rparr>))"
| "resolveViewDependency (OtherDependency placeholder) h = h"

definition resolveViewStatements ::
  "'x ViewCompileResult \<Rightarrow> heap \<Rightarrow> 'x Statement list \<times> heap" where
  "resolveViewStatements compileResult h =
     (ViewCompileResult.statements compileResult,
      fold resolveViewDependency (ViewCompileResult.dependencies compileResult) h)"

definition resolveStyleDependency :: "string \<Rightarrow> StylesCompileDependency \<Rightarrow> heap \<Rightarrow> heap" where
  "resolveStyleDependency suffix dep h =
     h(valuePlaceholder dep := (h (valuePlaceholder dep))
        \<lparr>CompileIdentifierMetadata.moduleUrl :=
           stylesModuleUrl (StylesCompileDependency.moduleUrl dep) (isShimmed dep) suffix\<rparr>)"

definition resolveStyleStatements ::
  "string \<Rightarrow> 'x StylesCompileResult \<Rightarrow> heap \<Rightarrow> 'x Statement list \<times> heap" where
  "resolveStyleStatements containingModuleUrl compileResult h =
     (let containingSuffix = splitSuffix containingModuleUrl ! 1
      in (StylesCompileResult.statements compileResult,
          fold (resolveStyleDependency containingSuffix)
            (StylesCompileResult.dependencies compileResult) h))"

subsection \<open>Methods of \<open>OfflineCompiler\<close>\<close>

definition codegenSourceModule ::
  "('x, 't, 'p) OfflineCompiler \<Rightarrow> string \<Rightarrow> 'x Statement list \<Rightarrow> string list
     \<Rightarrow> ('x, 't, 'p) State \<Rightarrow> SourceModule \<times> ('x, 't, 'p) State" where
  "codegenSourceModule this moduleUrl' statements' exportedVars s =
     (\<lparr>SourceModule.moduleUrl = moduleUrl',
       source = outputEmitter_emitStatements this moduleUrl' statements' exportedVars (heap s)\<rparr>,
      called (OutputEmitter_emitStatements moduleUrl' statements' exportedVars) s)"

definition codgenStyles ::
  "('x, 't, 'p) OfflineCompiler \<Rightarrow> string \<Rightarrow> bool \<Rightarrow> string \<Rightarrow> 'x StylesCompileResult
     \<Rightarrow> ('x, 't, 'p) State \<Rightarrow> SourceModule \<times> ('x, 't, 'p) State" where
  "codgenStyles this inputUrl shim suffix stylesCompileResult s =
     codegenSourceModule this (stylesModuleUrl inputUrl shim suffix)
       (StylesCompileResult.statements stylesCompileResult) [stylesVar stylesCompileResult] s"

text \<open>\<open>targetStatements\<close> is the caller's array, extended in place: the model takes it
  and returns it extended, beside the returned name. An exception of a collaborator ends
  the method at that call, before anything is appended or resolved.\<close>

definition compileComponent ::
  "('x, 't, 'p) OfflineCompiler \<Rightarrow> CompileDirectiveMetadata \<Rightarrow> CompileDirectiveMetadata list
     \<Rightarrow> 'p list \<Rightarrow> 'x Statement list \<Rightarrow> ('x, 't, 'p) State
     \<Rightarrow> (error + string \<times> 'x Statement list) \<times> ('x, 't, 'p) State" where
  "compileComponent this compMeta directives' pipes' targetStatements s =
     (let s1 = called (StyleCompiler_compileComponent compMeta) s
      in case styleCompiler_compileComponent this compMeta of
           Inl e \<Rightarrow> (Inl e, s1)
         | Inr styleResult \<Rightarrow>
            (let templ =
                   CompileTemplateMetadata.template (CompileDirectiveMetadata.template compMeta);
                 s2 = called (TemplateParser_parse compMeta templ directives' pipes'
                        (name (type compMeta))) s1
             in case templateParser_parse this compMeta templ directives' pipes'
                       (name (type compMeta)) of
                  Inl e \<Rightarrow> (Inl e, s2)
                | Inr parsedTemplate \<Rightarrow>
                   (let s3 = called (ViewCompiler_compileComponent compMeta parsedTemplate
                               (o_variable (stylesVar styleResult)) pipes') s2
                    in case viewCompiler_compileComponent this compMeta parsedTemplate
                              (o_variable (stylesVar styleResult)) pipes' of
                         Inl e \<Rightarrow> (Inl e, s3)
                       | Inr viewResult \<Rightarrow>
                          (let (styleStatements, h1) =
                                 resolveStyleStatements
                                   (CompileIdentifierMetadata.moduleUrl (type compMeta))
                                   styleResult (heap s3);
                               targetStatements1 = targetStatements @ styleStatements;
                               (viewStatements, h2) = resolveViewStatements viewResult h1;
                               targetStatements2 = targetStatements1 @ viewStatements
                           in (Inr (viewFactoryVar viewResult, targetStatements2),
                               s3\<lparr>heap := h2\<rparr>)))))"

text \<open>The body of the \<open>forEach\<close> in \<open>compileTemplates\<close>, for one entry. The two arrays
  \<open>statements\<close> and \<open>exportedVars\<close> are passed in and returned; an exception, of
  \<open>assertComponent\<close> or of either \<open>compileComponent\<close>, ends the body.\<close>

definition compileTemplates_entry ::
  "('x, 't, 'p) OfflineCompiler \<Rightarrow> 'p NormalizedComponentWithViewDirectives
     \<Rightarrow> 'x Statement list \<times> string list \<Rightarrow> ('x, 't, 'p) State
     \<Rightarrow> (error + 'x Statement list \<times> string list) \<times> ('x, 't, 'p) State" where
  "compileTemplates_entry this componentWithDirs acc s =
     (let (statements0, exportedVars0) = acc;
          compMeta = component componentWithDirs
      in case assertComponent compMeta of
           Inl e \<Rightarrow> (Inl e, s)
         | Inr _ \<Rightarrow>
            (case compileComponent this compMeta (directives componentWithDirs)
                    (pipes componentWithDirs) statements0 s of
               (Inl e, s1) \<Rightarrow> (Inl e, s1)
             | (Inr (compViewFactoryVar, statements1), s1) \<Rightarrow>
                (let exportedVars1 = exportedVars0 @ [compViewFactoryVar];
                     hostMeta = createHostComponentMeta this (type compMeta) (selector compMeta)
                 in case compileComponent this hostMeta [compMeta] [] statements1 s1 of
                      (Inl e, s2) \<Rightarrow> (Inl e, s2)
                    | (Inr (hostViewFactoryVar, statements2), s2) \<Rightarrow>
                       (let compFactoryVar = componentFactoryName (type compMeta);
                            statements3 = statements2 @
                              [o_toDeclStmt
                                 (o_set (o_variable compFactoryVar)
                                    (o_instantiate
                                       (o_importExpr (COMPONENT_FACTORY_IDENTIFIER this)
                                          (Some [o_importType (type compMeta) None None]))
                                       [o_literal (selector compMeta),
                                        o_variable hostViewFactoryVar,
                                        o_importExpr (type compMeta) None]
                                       (o_importType (COMPONENT_FACTORY_IDENTIFIER this)
                                          (Some [o_importType (type compMeta) None None])
                                          (Some [Const]))))
                                 None [Final]];
                            exportedVars2 = exportedVars1 @ [compFactoryVar]
                        in (Inr (statements3, exportedVars2), s2)))))"

text \<open>\<open>components.forEach\<close>: the entries in order; an exception ends the loop.\<close>

fun compileTemplates_forEach ::
  "('x, 't, 'p) OfflineCompiler \<Rightarrow> 'p NormalizedComponentWithViewDirectives list
     \<Rightarrow> 'x Statement list \<times> string list \<Rightarrow> ('x, 't, 'p) State
     \<Rightarrow> (error + 'x Statement list \<times> string list) \<times> ('x, 't, 'p) State" where
  "compileTemplates_forEach this [] acc s = (Inr acc, s)"
| "compileTemplates_forEach this (componentWithDirs # rest) acc s =
     (case compileTemplates_entry this componentWithDirs acc s of
        (Inl e, s1) \<Rightarrow> (Inl e, s1)
      | (Inr acc1, s1) \<Rightarrow> compileTemplates_forEach this rest acc1 s1)"

definition compileTemplates ::
  "('x, 't, 'p) OfflineCompiler \<Rightarrow> 'p NormalizedComponentWithViewDirectives list
     \<Rightarrow> ('x, 't, 'p) State \<Rightarrow> (error + SourceModule) \<times> ('x, 't, 'p) State" where
  "compileTemplates this components s =
     (if length components = 0 then (Inl (BaseException ''No components given''), s)
      else
        (let statements0 = [];
             exportedVars0 = [];
             moduleUrl' = ngfactoryModuleUrl (type (component (components ! 0)))
         in case compileTemplates_forEach this components (statements0, exportedVars0) s of
              (Inl e, s1) \<Rightarrow> (Inl e, s1)
            | (Inr (statements1, exportedVars1), s1) \<Rightarrow>
                (let (m, s2) = codegenSourceModule this moduleUrl' statements1 exportedVars1 s1
                 in (Inr m, s2))))"

text \<open>The loop of \<open>loadAndCompileStylesheet\<close> over the dependencies: it collects the
  imported URLs and resolves the placeholders.\<close>

definition loadAndCompileStylesheet_dep ::
  "string \<Rightarrow> StylesCompileDependency \<Rightarrow> string list \<times> heap \<Rightarrow> string list \<times> heap" where
  "loadAndCompileStylesheet_dep suffix dep acc =
     (let (importedUrls0, h) = acc;
          importedUrls1 = importedUrls0 @ [StylesCompileDependency.moduleUrl dep];
          h1 = h(valuePlaceholder dep := (h (valuePlaceholder dep))
                 \<lparr>CompileIdentifierMetadata.moduleUrl :=
                    stylesModuleUrl (StylesCompileDependency.moduleUrl dep) (isShimmed dep)
                      suffix\<rparr>)
      in (importedUrls1, h1))"

definition loadAndCompileStylesheet ::
  "('x, 't, 'p) OfflineCompiler \<Rightarrow> string \<Rightarrow> bool \<Rightarrow> string \<Rightarrow> ('x, 't, 'p) State
     \<Rightarrow> StyleSheetSourceWithImports Promise \<times> ('x, 't, 'p) State" where
  "loadAndCompileStylesheet this stylesheetUrl shim suffix s =
     (let s1 = called (XHR_get stylesheetUrl) s
      in case xhr_get this stylesheetUrl of
           Rejected e \<Rightarrow> (Rejected e, s1)
         | Pending \<Rightarrow> (Pending, s1)
         | Resolved cssText \<Rightarrow>
            (let compileResult =
                   styleCompiler_compileStylesheet this stylesheetUrl cssText shim;
                 s2 = called (StyleCompiler_compileStylesheet stylesheetUrl cssText shim) s1;
                 (importedUrls1, h) =
                   fold (loadAndCompileStylesheet_dep suffix)
                     (StylesCompileResult.dependencies compileResult) ([], heap s2);
                 (m, s3) = codgenStyles this stylesheetUrl shim suffix compileResult
                             (s2\<lparr>heap := h\<rparr>)
             in (Resolved \<lparr>StyleSheetSourceWithImports.source = m,
                           importedUrls = importedUrls1\<rparr>, s3)))"

section \<open>Observations\<close>

text \<open>The calls of the output emitter among the recorded calls, each as the triple of
  its arguments (module URL, statements, exported symbols).\<close>

primrec emitterCalls ::
  "('x, 't, 'p) Call list \<Rightarrow> (string \<times> 'x Statement list \<times> string list) list" where
  "emitterCalls [] = []"
| "emitterCalls (c # cs) =
     (case c of
        OutputEmitter_emitStatements u st ex \<Rightarrow> (u, st, ex) # emitterCalls cs
      | _ \<Rightarrow> emitterCalls cs)"

text \<open>The placeholder a view dependency holds, and the placeholders that
  \<open>resolveViewStatements\<close> assigns to.\<close>

fun placeholderOf :: "ViewDependency \<Rightarrow> addr" where
  "placeholderOf (ViewFactoryDependency cmp p) = p"
| "placeholderOf (ComponentFactoryDependency cmp p) = p"
| "placeholderOf (OtherDependency p) = p"

fun assignedPlaceholders :: "ViewDependency list \<Rightarrow> addr list" where
  "assignedPlaceholders [] = []"
| "assignedPlaceholders (OtherDependency p # deps) = assignedPlaceholders deps"
| "assignedPlaceholders (dep # deps) = placeholderOf dep # assignedPlaceholders deps"

text \<open>The outcome of the three collaborator calls that \<open>compileComponent\<close> makes for a
  component: the result of the view compiler, or the first exception.\<close>

definition viewResultOf ::
  "('x, 't, 'p) OfflineCompiler \<Rightarrow> CompileDirectiveMetadata \<Rightarrow> CompileDirectiveMetadata list
     \<Rightarrow> 'p list \<Rightarrow> error + 'x ViewCompileResult" where
  "viewResultOf this compMeta directives' pipes' =
     (case styleCompiler_compileComponent this compMeta of
        Inl e \<Rightarrow> Inl e
      | Inr styleResult \<Rightarrow>
         (case templateParser_parse this compMeta
                 (CompileTemplateMetadata.template (CompileDirectiveMetadata.template compMeta))
                 directives' pipes' (name (type compMeta)) of
            Inl e \<Rightarrow> Inl e
          | Inr parsedTemplate \<Rightarrow>
              viewCompiler_compileComponent this compMeta parsedTemplate
                (o_variable (stylesVar styleResult)) pipes'))"

definition returns :: "error + 'a \<Rightarrow> bool" where
  "returns r = (case r of Inl e \<Rightarrow> False | Inr v \<Rightarrow> True)"

text \<open>The collaborators return normally for an entry of the batch: for its component, and
  for the host component that \<open>compileTemplates\<close> makes of it.\<close>

definition entryCompiles ::
  "('x, 't, 'p) OfflineCompiler \<Rightarrow> 'p NormalizedComponentWithViewDirectives \<Rightarrow> bool" where
  "entryCompiles this cw =
     (returns (viewResultOf this (component cw) (directives cw) (pipes cw))
      \<and> returns (viewResultOf this
           (createHostComponentMeta this (type (component cw)) (selector (component cw)))
           [component cw] []))"

text \<open>The exported symbols of a batch whose entries compile: per entry, the name of its
  view factory and the name of its component factory.\<close>

definition exportedSymbols ::
  "('x, 't, 'p) OfflineCompiler \<Rightarrow> 'p NormalizedComponentWithViewDirectives list
     \<Rightarrow> string list" where
  "exportedSymbols this components =
     concat (map (\<lambda>cw. [viewFactoryVar (projr
                           (viewResultOf this (component cw) (directives cw) (pipes cw))),
                         name (type (component cw)) @ ''NgFactory'']) components)"

section \<open>A concrete compiler\<close>

text \<open>Collaborators small enough to run: the style compiler reports two imported
  stylesheets, the template parser throws on the template \<open><p>\<close> and returns any other
  as it is, the view compiler reports one dependency of each kind, the host metadata has
  the component's module URL and the name with \<open>_Host\<close> appended, and the emitter prints
  the exported symbols. They instantiate the theorems below at concrete inputs.\<close>

definition demoStyles :: "string \<Rightarrow> bool \<Rightarrow> string StylesCompileResult" where
  "demoStyles v shim =
     \<lparr>StylesCompileResult.statements = [CompiledStmt v],
      stylesVar = v,
      dependencies =
        [\<lparr>StylesCompileDependency.moduleUrl = ''b.css'', isShimmed = shim,
          valuePlaceholder = 0\<rparr>,
         \<lparr>StylesCompileDependency.moduleUrl = ''lib/c.css'', isShimmed = True,
          valuePlaceholder = 1\<rparr>]\<rparr>"

definition demoView :: "CompileDirectiveMetadata \<Rightarrow> string ViewCompileResult" where
  "demoView compMeta =
     \<lparr>ViewCompileResult.statements = [CompiledStmt (''viewFactory_'' @ name (type compMeta))],
      viewFactoryVar = ''viewFactory_'' @ name (type compMeta),
      dependencies =
        [ViewFactoryDependency compMeta 2,
         ComponentFactoryDependency (type compMeta) 3,
         OtherDependency 4]\<rparr>"

definition demoCompiler :: "(string, string, unit) OfflineCompiler" where
  "demoCompiler =
     \<lparr>styleCompiler_compileComponent = (\<lambda>compMeta. Inr (demoStyles ''styles'' False)),
      styleCompiler_compileStylesheet = (\<lambda>url cssText shim. demoStyles ''styles'' shim),
      templateParser_parse = (\<lambda>compMeta templ ds ps n.
        if templ = ''<p>'' then Inl (BaseException ''Template parse errors'') else Inr templ),
      viewCompiler_compileComponent =
        (\<lambda>compMeta parsed stylesExpr ps. Inr (demoView compMeta)),
      outputEmitter_emitStatements = (\<lambda>url sts exported h. concat exported),
      xhr_get = (\<lambda>url. if url = ''missing.css'' then Rejected (BaseException ''404'')
                         else Resolved ''p {}''),
      createHostComponentMeta = (\<lambda>t sel.
        \<lparr>type = t\<lparr>name := name t @ ''_Host''\<rparr>, isComponent = True, selector = ''*'',
         template = \<lparr>CompileTemplateMetadata.template = sel\<rparr>\<rparr>),
      assetUrl = (\<lambda>pkg path. ''asset:'' @ pkg @ ''/'' @ path)\<rparr>"

definition demoComponent :: CompileDirectiveMetadata where
  "demoComponent =
     \<lparr>type = \<lparr>name = ''App'', runtime = None, moduleUrl = ''a.foo''\<rparr>,
      isComponent = True, selector = ''app'', template = \<lparr>CompileTemplateMetadata.template = ''<p></p>''\<rparr>\<rparr>"

definition demoDirective :: CompileDirectiveMetadata where
  "demoDirective =
     \<lparr>type = \<lparr>name = ''Tip'', runtime = None, moduleUrl = ''lib/tip.ts''\<rparr>,
      isComponent = False, selector = ''[tip]'', template = \<lparr>CompileTemplateMetadata.template = []\<rparr>\<rparr>"

definition entry :: "CompileDirectiveMetadata \<Rightarrow> unit NormalizedComponentWithViewDirectives" where
  "entry meta = \<lparr>component = meta, directives = [], pipes = []\<rparr>"

definition unresolved :: CompileIdentifierMetadata where
  "unresolved = \<lparr>name = ''placeholder'', runtime = None, moduleUrl = []\<rparr>"

definition demoState :: "(string, string, unit) State" where
  "demoState = \<lparr>heap = (\<lambda>a. unresolved), calls = []\<rparr>"

text \<open>The same component in a module whose URL has no dot, the same component with a
  template that the parser refuses, and the two stylesheet dependencies that the style
  compiler reports (the first with the shim flag off).\<close>

definition demoBroken :: CompileDirectiveMetadata where
  "demoBroken = demoComponent\<lparr>template := \<lparr>CompileTemplateMetadata.template = ''<p>''\<rparr>\<rparr>"

definition demoPlain :: CompileDirectiveMetadata where
  "demoPlain = demoComponent\<lparr>type := (type demoComponent)
     \<lparr>CompileIdentifierMetadata.moduleUrl := ''a''\<rparr>\<rparr>"

definition demoDep :: StylesCompileDependency where
  "demoDep = \<lparr>StylesCompileDependency.moduleUrl = ''b.css'', isShimmed = False,
              valuePlaceholder = 0\<rparr>"

definition demoShimmedDep :: StylesCompileDependency where
  "demoShimmedDep = \<lparr>StylesCompileDependency.moduleUrl = ''lib/c.css'', isShimmed = True,
                     valuePlaceholder = 1\<rparr>"

section \<open>Auxiliary facts\<close>

subsection \<open>Splitting at the last dot\<close>

lemma lastIndexOf_nat_None: "lastIndexOf_nat s c = None \<longleftrightarrow> c \<notin> set s"
  by (induction s) (auto split: option.splits)

lemma lastIndexOf_nat_append:
  "c \<notin> set ext \<Longrightarrow> lastIndexOf_nat (base @ c # ext) c = Some (length base)"
  by (induction base) (auto simp: lastIndexOf_nat_None split: option.splits)

lemma splitSuffix_dot:
  "CHR ''.'' \<notin> set ext \<Longrightarrow> splitSuffix (base @ CHR ''.'' # ext) = [base, CHR ''.'' # ext]"
  by (simp add: splitSuffix_def lastIndexOf_def lastIndexOf_nat_append substring_def
      substring_from_def clampIndex_def)

lemma splitSuffix_no_dot:
  "CHR ''.'' \<notin> set path \<Longrightarrow> splitSuffix path = [path, '''']"
proof -
  assume "CHR ''.'' \<notin> set path"
  then have "lastIndexOf_nat path CHR ''.'' = None"
    by (simp add: lastIndexOf_nat_None)
  then show ?thesis
    by (simp add: splitSuffix_def lastIndexOf_def)
qed

subsection \<open>Placeholder resolution over a list of dependencies\<close>

lemma emitterCalls_append: "emitterCalls (xs @ ys) = emitterCalls xs @ emitterCalls ys"
  by (induction xs) (auto split: Call.splits)

lemma resolveStyleDependency_apply:
  "resolveStyleDependency sfx x h a =
     (if a = valuePlaceholder x
      then (h a)\<lparr>CompileIdentifierMetadata.moduleUrl :=
             stylesModuleUrl (StylesCompileDependency.moduleUrl x) (isShimmed x) sfx\<rparr>
      else h a)"
  by (simp add: resolveStyleDependency_def)

lemma fold_resolveStyleDependency_other:
  "a \<notin> valuePlaceholder ` set deps \<Longrightarrow> fold (resolveStyleDependency sfx) deps h a = h a"
proof (induction deps arbitrary: h)
  case Nil
  then show ?case by simp
next
  case (Cons x deps)
  then have "a \<noteq> valuePlaceholder x" and "a \<notin> valuePlaceholder ` set deps" by auto
  then have "fold (resolveStyleDependency sfx) deps (resolveStyleDependency sfx x h) a
               = resolveStyleDependency sfx x h a"
    using Cons.IH by blast
  also have "\<dots> = h a"
    using \<open>a \<noteq> valuePlaceholder x\<close> by (simp only: resolveStyleDependency_apply if_False)
  finally show ?case by (simp only: fold_simps o_apply)
qed

lemma fold_resolveStyleDependency_distinct:
  "distinct (map valuePlaceholder deps) \<Longrightarrow> d \<in> set deps \<Longrightarrow>
   fold (resolveStyleDependency sfx) deps h (valuePlaceholder d) =
     (h (valuePlaceholder d))\<lparr>CompileIdentifierMetadata.moduleUrl :=
        stylesModuleUrl (StylesCompileDependency.moduleUrl d) (isShimmed d) sfx\<rparr>"
proof (induction deps arbitrary: h)
  case Nil
  then show ?case by simp
next
  case (Cons x deps)
  show ?case
  proof (cases "d = x")
    case True
    with Cons.prems have "valuePlaceholder d \<notin> valuePlaceholder ` set deps" by auto
    then have "fold (resolveStyleDependency sfx) deps (resolveStyleDependency sfx x h)
                 (valuePlaceholder d) = resolveStyleDependency sfx x h (valuePlaceholder d)"
      by (rule fold_resolveStyleDependency_other)
    also have "\<dots> = (h (valuePlaceholder d))\<lparr>CompileIdentifierMetadata.moduleUrl :=
        stylesModuleUrl (StylesCompileDependency.moduleUrl d) (isShimmed d) sfx\<rparr>"
      unfolding True by (simp add: resolveStyleDependency_apply)
    finally show ?thesis by (simp only: fold_simps o_apply)
  next
    case False
    with Cons.prems have in_rest: "d \<in> set deps" and dist: "distinct (map valuePlaceholder deps)"
      and fresh: "valuePlaceholder x \<notin> valuePlaceholder ` set deps" by simp_all
    from in_rest fresh have neq: "valuePlaceholder d \<noteq> valuePlaceholder x" by (metis imageI)
    have "resolveStyleDependency sfx x h (valuePlaceholder d) = h (valuePlaceholder d)"
      using neq by (simp only: resolveStyleDependency_apply if_False)
    with Cons.IH [OF dist in_rest, of "resolveStyleDependency sfx x h"]
    show ?thesis by (simp only: fold_simps o_apply)
  qed
qed

lemma fold_loadAndCompileStylesheet_dep:
  "fold (loadAndCompileStylesheet_dep sfx) deps (urls, h) =
     (urls @ map StylesCompileDependency.moduleUrl deps, fold (resolveStyleDependency sfx) deps h)"
  by (induction deps arbitrary: urls h)
     (simp_all add: loadAndCompileStylesheet_dep_def resolveStyleDependency_def)

lemma resolveViewDependency_other:
  "a \<noteq> placeholderOf d \<Longrightarrow> resolveViewDependency d h a = h a"
  by (cases d) (simp_all add: Let_def)

lemma fold_resolveViewDependency_other:
  "a \<notin> set (assignedPlaceholders deps) \<Longrightarrow> fold resolveViewDependency deps h a = h a"
  by (induction deps arbitrary: h rule: assignedPlaceholders.induct) (auto simp: Let_def)

lemma set_assignedPlaceholders: "set (assignedPlaceholders deps) \<subseteq> placeholderOf ` set deps"
  by (induction deps rule: assignedPlaceholders.induct) auto

lemma fold_resolveViewDependency_distinct:
  "distinct (map placeholderOf deps) \<Longrightarrow> d \<in> set deps \<Longrightarrow>
   fold resolveViewDependency deps h (placeholderOf d) = resolveViewDependency d h (placeholderOf d)"
proof (induction deps arbitrary: h)
  case Nil
  then show ?case by simp
next
  case (Cons x deps)
  show ?case
  proof (cases "d = x")
    case True
    with Cons.prems have "placeholderOf d \<notin> placeholderOf ` set deps" by auto
    with set_assignedPlaceholders [of deps]
    have "placeholderOf d \<notin> set (assignedPlaceholders deps)" by blast
    then have "fold resolveViewDependency deps (resolveViewDependency x h) (placeholderOf d)
                 = resolveViewDependency x h (placeholderOf d)"
      by (rule fold_resolveViewDependency_other)
    with True show ?thesis by simp
  next
    case False
    with Cons.prems have in_rest: "d \<in> set deps" and dist: "distinct (map placeholderOf deps)"
      and fresh: "placeholderOf x \<notin> placeholderOf ` set deps" by simp_all
    from in_rest fresh have neq: "placeholderOf d \<noteq> placeholderOf x" by (metis imageI)
    have step: "resolveViewDependency x h (placeholderOf d) = h (placeholderOf d)"
      using neq by (rule resolveViewDependency_other)
    have "resolveViewDependency d (resolveViewDependency x h) (placeholderOf d)
            = resolveViewDependency d h (placeholderOf d)"
      using step by (cases d) (simp_all add: Let_def)
    with Cons.IH [OF dist in_rest, of "resolveViewDependency x h"]
    show ?thesis by simp
  qed
qed

subsection \<open>One component\<close>

lemma compileComponent_returns:
  assumes "styleCompiler_compileComponent this compMeta = Inr styleResult"
    and "templateParser_parse this compMeta
           (CompileTemplateMetadata.template (CompileDirectiveMetadata.template compMeta))
           ds ps (name (type compMeta)) = Inr parsedTemplate"
    and "viewCompiler_compileComponent this compMeta parsedTemplate
           (o_variable (stylesVar styleResult)) ps = Inr viewResult"
  shows "compileComponent this compMeta ds ps tgt s =
     (Inr (viewFactoryVar viewResult,
           tgt @ StylesCompileResult.statements styleResult
               @ ViewCompileResult.statements viewResult),
      \<lparr>heap =
         fold resolveViewDependency (ViewCompileResult.dependencies viewResult)
           (fold (resolveStyleDependency
                    (splitSuffix (CompileIdentifierMetadata.moduleUrl (type compMeta)) ! 1))
              (StylesCompileResult.dependencies styleResult) (heap s)),
       calls = calls s @
         [StyleCompiler_compileComponent compMeta,
          TemplateParser_parse compMeta
            (CompileTemplateMetadata.template (CompileDirectiveMetadata.template compMeta))
            ds ps (name (type compMeta)),
          ViewCompiler_compileComponent compMeta parsedTemplate
            (o_variable (stylesVar styleResult)) ps]\<rparr>)"
  using assms
  by (simp add: compileComponent_def Let_def resolveStyleStatements_def
      resolveViewStatements_def called_def)

lemma compileComponent_emitterCalls:
  "emitterCalls (calls (snd (compileComponent this compMeta ds ps tgt s))) =
     emitterCalls (calls s)"
  by (simp add: compileComponent_def Let_def resolveStyleStatements_def
      resolveViewStatements_def called_def emitterCalls_append split: sum.splits)

lemma compileComponent_throws:
  "viewResultOf this compMeta ds ps = Inl e \<Longrightarrow>
   fst (compileComponent this compMeta ds ps tgt s) = Inl e"
  by (auto simp: compileComponent_def viewResultOf_def Let_def resolveStyleStatements_def
      resolveViewStatements_def split: sum.splits)

lemma compileComponent_name:
  "viewResultOf this compMeta ds ps = Inr v \<Longrightarrow>
   \<exists>sts. fst (compileComponent this compMeta ds ps tgt s) = Inr (viewFactoryVar v, sts)"
  by (auto simp: compileComponent_def viewResultOf_def Let_def resolveStyleStatements_def
      resolveViewStatements_def split: sum.splits)

lemma returns_iff: "returns r \<longleftrightarrow> (\<exists>v. r = Inr v)"
  by (cases r) (simp_all add: returns_def)

lemma not_returns_iff: "\<not> returns r \<longleftrightarrow> (\<exists>e. r = Inl e)"
  by (cases r) (simp_all add: returns_def)

subsection \<open>The loop over the batch\<close>

lemma compileComponent_emitterCalls_result:
  "compileComponent this compMeta ds ps tgt s = (r, s') \<Longrightarrow>
   emitterCalls (calls s') = emitterCalls (calls s)"
  using compileComponent_emitterCalls [of this compMeta ds ps tgt s] by simp

lemma compileTemplates_entry_emitterCalls:
  "emitterCalls (calls (snd (compileTemplates_entry this cw acc s))) = emitterCalls (calls s)"
  by (auto simp: compileTemplates_entry_def Let_def split: sum.splits prod.splits
      dest!: compileComponent_emitterCalls_result)

lemma compileTemplates_entry_not_component:
  "\<not> isComponent (component cw) \<Longrightarrow>
   compileTemplates_entry this cw acc s =
     (Inl (BaseException
        (''Could not compile '' @ [CHR 0x27] @ name (type (component cw)) @ [CHR 0x27]
           @ '' because it is not a component.'')), s)"
  by (simp add: compileTemplates_entry_def assertComponent_def split: prod.splits)

lemma compileTemplates_entry_component:
  assumes "isComponent (component cw)" and "entryCompiles this cw"
  shows "\<exists>sts s'. compileTemplates_entry this cw (st0, ex0) s =
           (Inr (sts, ex0 @ exportedSymbols this [cw]), s')"
proof -
  let ?m = "component cw"
  let ?host = "createHostComponentMeta this (type ?m) (selector ?m)"
  from assms(2) obtain v1 v2 where
    r1: "viewResultOf this ?m (directives cw) (pipes cw) = Inr v1"
    and r2: "viewResultOf this ?host [?m] [] = Inr v2"
    by (auto simp: entryCompiles_def returns_iff)
  from compileComponent_name [OF r1, of st0 s] obtain t1 s1 where
    c1: "compileComponent this ?m (directives cw) (pipes cw) st0 s =
           (Inr (viewFactoryVar v1, t1), s1)"
    by (metis prod.collapse)
  from compileComponent_name [OF r2, of t1 s1] obtain t2 s2 where
    c2: "compileComponent this ?host [?m] [] t1 s1 = (Inr (viewFactoryVar v2, t2), s2)"
    by (metis prod.collapse)
  show ?thesis
    using assms(1)
    by (simp add: compileTemplates_entry_def assertComponent_def c1 c2 r1 Let_def
        componentFactoryName_def exportedSymbols_def)
qed

lemma compileTemplates_entry_Inr:
  assumes "fst (compileTemplates_entry this cw acc s) = Inr r"
  shows "isComponent (component cw)"
proof (rule ccontr)
  assume "\<not> isComponent (component cw)"
  then have "fst (compileTemplates_entry this cw acc s) =
     Inl (BaseException
        (''Could not compile '' @ [CHR 0x27] @ name (type (component cw)) @ [CHR 0x27]
           @ '' because it is not a component.''))"
    by (simp add: compileTemplates_entry_not_component)
  with assms show False by simp
qed

lemma exportedSymbols_Cons:
  "exportedSymbols this (cw # rest) = exportedSymbols this [cw] @ exportedSymbols this rest"
  by (simp add: exportedSymbols_def)

lemma compileTemplates_forEach_emitterCalls:
  "emitterCalls (calls (snd (compileTemplates_forEach this components acc s))) =
     emitterCalls (calls s)"
proof (induction components arbitrary: acc s)
  case Nil
  then show ?case by simp
next
  case (Cons cw rest)
  obtain r s1 where step: "compileTemplates_entry this cw acc s = (r, s1)"
    by (cases "compileTemplates_entry this cw acc s")
  have e1: "emitterCalls (calls s1) = emitterCalls (calls s)"
    using compileTemplates_entry_emitterCalls [of this cw acc s] step by simp
  show ?case
  proof (cases r)
    case (Inl e)
    with step e1 show ?thesis by simp
  next
    case (Inr acc1)
    with step e1 Cons.IH [of acc1 s1] show ?thesis by simp
  qed
qed

lemma compileTemplates_forEach_components:
  "\<forall>c\<in>set components. isComponent (component c) \<and> entryCompiles this c \<Longrightarrow>
   \<exists>sts s'. compileTemplates_forEach this components (st0, ex0) s =
              (Inr (sts, ex0 @ exportedSymbols this components), s')"
proof (induction components arbitrary: st0 ex0 s)
  case Nil
  then show ?case by (simp add: exportedSymbols_def)
next
  case (Cons cw rest)
  then have "isComponent (component cw)" and "entryCompiles this cw"
    and rest: "\<forall>c\<in>set rest. isComponent (component c) \<and> entryCompiles this c"
    by simp_all
  with compileTemplates_entry_component [of cw this st0 ex0 s] obtain st1 s1 where
    step: "compileTemplates_entry this cw (st0, ex0) s =
             (Inr (st1, ex0 @ exportedSymbols this [cw]), s1)"
    by blast
  from Cons.IH [OF rest, of st1 "ex0 @ exportedSymbols this [cw]" s1]
  obtain sts s' where
    loop: "compileTemplates_forEach this rest (st1, ex0 @ exportedSymbols this [cw]) s1 =
             (Inr (sts, (ex0 @ exportedSymbols this [cw]) @ exportedSymbols this rest), s')"
    by blast
  show ?case
    unfolding exportedSymbols_Cons [of this cw rest]
    using step loop by simp
qed

lemma compileTemplates_forEach_not_component:
  "\<forall>c\<in>set good. isComponent (component c) \<and> entryCompiles this c \<Longrightarrow>
   \<not> isComponent (component bad) \<Longrightarrow>
   fst (compileTemplates_forEach this (good @ bad # rest) (st0, ex0) s) =
     Inl (BaseException
        (''Could not compile '' @ [CHR 0x27] @ name (type (component bad)) @ [CHR 0x27]
           @ '' because it is not a component.''))"
proof (induction good arbitrary: st0 ex0 s)
  case Nil
  then show ?case by (simp add: compileTemplates_entry_not_component)
next
  case (Cons cw good)
  then have "isComponent (component cw)" and "entryCompiles this cw"
    and good: "\<forall>c\<in>set good. isComponent (component c) \<and> entryCompiles this c"
    by simp_all
  with compileTemplates_entry_component [of cw this st0 ex0 s] obtain st1 s1 where
    step: "compileTemplates_entry this cw (st0, ex0) s =
             (Inr (st1, ex0 @ exportedSymbols this [cw]), s1)"
    by blast
  from Cons.IH [OF good Cons.prems(2), of st1 "ex0 @ exportedSymbols this [cw]" s1]
  show ?case
    using step by simp
qed

lemma compileTemplates_forEach_throws:
  "\<exists>c\<in>set components. \<not> isComponent (component c) \<Longrightarrow>
   isl (fst (compileTemplates_forEach this components acc s))"
proof (induction components arbitrary: acc s)
  case Nil
  then show ?case by simp
next
  case (Cons cw rest)
  obtain r s1 where step: "compileTemplates_entry this cw acc s = (r, s1)"
    by (cases "compileTemplates_entry this cw acc s")
  show ?case
  proof (cases r)
    case (Inl e)
    with step show ?thesis by simp
  next
    case (Inr acc1)
    with step have "isComponent (component cw)"
      using compileTemplates_entry_Inr [of this cw acc s acc1] by simp
    with Cons.prems have "\<exists>c\<in>set rest. \<not> isComponent (component c)" by auto
    from Cons.IH [OF this, of acc1 s1] step Inr show ?thesis by simp
  qed
qed

subsection \<open>Loading a stylesheet\<close>

lemma loadAndCompileStylesheet_eq:
  assumes "xhr_get this stylesheetUrl = Resolved cssText"
  shows "loadAndCompileStylesheet this stylesheetUrl shim suffix s =
    (let compileResult = styleCompiler_compileStylesheet this stylesheetUrl cssText shim;
         h = fold (resolveStyleDependency suffix)
               (StylesCompileResult.dependencies compileResult) (heap s)
     in (Resolved
          \<lparr>StyleSheetSourceWithImports.source =
             \<lparr>SourceModule.moduleUrl = stylesModuleUrl stylesheetUrl shim suffix,
              source = outputEmitter_emitStatements this
                (stylesModuleUrl stylesheetUrl shim suffix)
                (StylesCompileResult.statements compileResult) [stylesVar compileResult] h\<rparr>,
           importedUrls =
             map StylesCompileDependency.moduleUrl
               (StylesCompileResult.dependencies compileResult)\<rparr>,
         \<lparr>heap = h,
          calls = calls s @
            [XHR_get stylesheetUrl,
             StyleCompiler_compileStylesheet stylesheetUrl cssText shim,
             OutputEmitter_emitStatements (stylesModuleUrl stylesheetUrl shim suffix)
               (StylesCompileResult.statements compileResult)
               [stylesVar compileResult]]\<rparr>))"
  using assms
  by (simp add: loadAndCompileStylesheet_def Let_def fold_loadAndCompileStylesheet_dep
      codgenStyles_def codegenSourceModule_def called_def)

subsection \<open>The concrete compiler, evaluated\<close>

lemmas demo_defs =
  demoCompiler_def demoComponent_def demoDirective_def entry_def demoState_def demoStyles_def
  demoView_def unresolved_def demoBroken_def demoPlain_def

lemma demo_entryCompiles: "entryCompiles demoCompiler (entry demoComponent)"
  by (simp add: entryCompiles_def viewResultOf_def returns_def demo_defs)

lemma demo_batch_fails:
  "fst (compileTemplates demoCompiler [entry demoComponent, entry demoDirective] demoState) =
     Inl (BaseException
       (''Could not compile '' @ [CHR 0x27] @ ''Tip'' @ [CHR 0x27]
          @ '' because it is not a component.''))"
  by (simp add: compileTemplates_def compileTemplates_entry_def assertComponent_def
      compileComponent_def resolveStyleStatements_def resolveViewStatements_def
      demo_defs Let_def)

lemma demo_parser_throws:
  "fst (compileTemplates demoCompiler (entry demoBroken # rest) demoState) =
     Inl (BaseException ''Template parse errors'')
   \<and> emitterCalls (calls (snd
        (compileTemplates demoCompiler (entry demoBroken # rest) demoState))) = []"
  by (simp add: compileTemplates_def compileTemplates_entry_def assertComponent_def
      compileComponent_def called_def demo_defs Let_def)

section \<open>The claims\<close>

text \<open>
  C7. For every module URL, the factory module URL is the part before the last dot,
  then \<open>.ngfactory\<close>, then the suffix from the last dot on; a URL with no dot has the
  empty suffix and gets \<open>.ngfactory\<close> appended. The last dot is the one with no dot
  after it: a URL \<open>base @ ''.'' @ ext\<close> with no dot in \<open>ext\<close> is cut there, and every
  URL that has a dot is of this form. So \<open>a/b.ts\<close> gives \<open>a/b.ngfactory.ts\<close> and
  \<open>a/b\<close> gives \<open>a/b.ngfactory\<close>.
\<close>

theorem ngfactoryModuleUrl_rule:
  "(CHR ''.'' \<notin> set ext \<longrightarrow>
      ngfactoryModuleUrl (cmp\<lparr>CompileIdentifierMetadata.moduleUrl := base @ CHR ''.'' # ext\<rparr>)
        = base @ ''.ngfactory'' @ CHR ''.'' # ext)
   \<and> (CHR ''.'' \<in> set url \<longrightarrow>
        (\<exists>b e. url = b @ CHR ''.'' # e \<and> CHR ''.'' \<notin> set e
           \<and> ngfactoryModuleUrl (cmp\<lparr>CompileIdentifierMetadata.moduleUrl := url\<rparr>)
               = b @ ''.ngfactory'' @ CHR ''.'' # e))
   \<and> (CHR ''.'' \<notin> set plain \<longrightarrow>
      ngfactoryModuleUrl (cmp\<lparr>CompileIdentifierMetadata.moduleUrl := plain\<rparr>)
        = plain @ ''.ngfactory'')
   \<and> ngfactoryModuleUrl (cmp\<lparr>CompileIdentifierMetadata.moduleUrl := ''a/b.ts''\<rparr>)
        = ''a/b.ngfactory.ts''
   \<and> ngfactoryModuleUrl (cmp\<lparr>CompileIdentifierMetadata.moduleUrl := ''a/b''\<rparr>)
        = ''a/b.ngfactory''"
proof -
  have dot: "CHR ''.'' \<notin> set e \<Longrightarrow>
      ngfactoryModuleUrl (cmp\<lparr>CompileIdentifierMetadata.moduleUrl := b @ CHR ''.'' # e\<rparr>)
        = b @ ''.ngfactory'' @ CHR ''.'' # e" for b e
    by (simp add: ngfactoryModuleUrl_def splitSuffix_dot)
  have no_dot: "CHR ''.'' \<notin> set u \<Longrightarrow>
      ngfactoryModuleUrl (cmp\<lparr>CompileIdentifierMetadata.moduleUrl := u\<rparr>)
        = u @ ''.ngfactory''" for u
    by (simp add: ngfactoryModuleUrl_def splitSuffix_no_dot)
  have some_dot: "\<exists>b e. url = b @ CHR ''.'' # e \<and> CHR ''.'' \<notin> set e
           \<and> ngfactoryModuleUrl (cmp\<lparr>CompileIdentifierMetadata.moduleUrl := url\<rparr>)
               = b @ ''.ngfactory'' @ CHR ''.'' # e"
    if "CHR ''.'' \<in> set url"
  proof -
    from that obtain b e where "url = b @ CHR ''.'' # e" and "CHR ''.'' \<notin> set e"
      using split_list_last [of "CHR ''.''" url] by blast
    with dot [of e b] show ?thesis by blast
  qed
  have "ngfactoryModuleUrl (cmp\<lparr>CompileIdentifierMetadata.moduleUrl := ''a/b'' @ CHR ''.'' # ''ts''\<rparr>)
        = ''a/b'' @ ''.ngfactory'' @ CHR ''.'' # ''ts''"
    by (rule dot) simp
  moreover have "ngfactoryModuleUrl (cmp\<lparr>CompileIdentifierMetadata.moduleUrl := ''a/b''\<rparr>)
        = ''a/b'' @ ''.ngfactory''"
    by (rule no_dot) simp
  ultimately show ?thesis
    using dot [of ext base] no_dot [of plain] some_dot by simp
qed

theorem ngfactoryModuleUrl_rule_witness:
  "CHR ''.'' \<notin> set ''ts''
   \<and> CHR ''.'' \<in> set ''lib/tip.ts''
   \<and> ngfactoryModuleUrl (type demoDirective) = ''lib/tip.ngfactory.ts''
   \<and> CHR ''.'' \<notin> set ''lib/tip''
   \<and> ngfactoryModuleUrl ((type demoDirective)\<lparr>CompileIdentifierMetadata.moduleUrl := ''lib/tip''\<rparr>)
       = ''lib/tip.ngfactory''"
  using ngfactoryModuleUrl_rule [where ext = "''ts''" and cmp = "type demoDirective"
      and base = "''lib/tip''" and url = "''lib/tip.ts''" and plain = "''lib/tip''"]
  by (simp add: demoDirective_def)

text \<open>
  C6. \<open>compileTemplates\<close> on the empty list throws the exception \<open>No components given\<close>
  and returns no module; the state is the one it was called in, so no collaborator was
  called and no placeholder was written.
\<close>

theorem compileTemplates_empty:
  "compileTemplates this [] s = (Inl (BaseException ''No components given''), s)"
  by (simp add: compileTemplates_def)

text \<open>
  C2, as stated, gives the error that names the type that is not a component for every
  list that holds such an entry. When the template parser throws on an entry before it,
  that exception ends the loop first, and the error is the parser's.
\<close>

theorem compileTemplates_not_a_component_counterexample:
  "\<not> isComponent (component (entry demoDirective))
   \<and> isComponent (component (entry demoBroken))
   \<and> fst (compileTemplates demoCompiler [entry demoBroken, entry demoDirective] demoState) =
       Inl (BaseException ''Template parse errors'')"
  using demo_parser_throws [of "[entry demoDirective]"]
  by (simp add: demo_defs)

text \<open>
  C2, amended. When some entry of the batch is not flagged as a component,
  \<open>compileTemplates\<close> throws and returns no module, and the emitter is not called, also
  when the entries before it were compiled. When the style compiler, the template parser
  and the view compiler return normally for every entry before the first such entry (for
  its component and for its host), the exception is the one whose message names the type
  of that entry.
\<close>

theorem compileTemplates_not_a_component:
  assumes "\<exists>c\<in>set components. \<not> isComponent (component c)"
  shows "(\<exists>e. fst (compileTemplates this components s) = Inl e)
       \<and> emitterCalls (calls (snd (compileTemplates this components s))) =
           emitterCalls (calls s)
       \<and> (\<forall>good bad rest.
             components = good @ bad # rest
             \<and> (\<forall>c\<in>set good. isComponent (component c) \<and> entryCompiles this c)
             \<and> \<not> isComponent (component bad)
           \<longrightarrow> fst (compileTemplates this components s) =
                 Inl (BaseException
                   (''Could not compile '' @ [CHR 0x27] @ name (type (component bad))
                      @ [CHR 0x27] @ '' because it is not a component.'')))"
proof -
  from assms have ne: "components \<noteq> []" by auto
  let ?loop = "compileTemplates_forEach this components ([], []) s"
  have "isl (fst ?loop)"
    using assms by (rule compileTemplates_forEach_throws)
  then obtain e s' where loop: "?loop = (Inl e, s')"
    by (cases ?loop, cases "fst ?loop") auto
  have quiet: "emitterCalls (calls s') = emitterCalls (calls s)"
    using compileTemplates_forEach_emitterCalls [of this components "([], [])" s] loop by simp
  have result: "compileTemplates this components s = (Inl e, s')"
    using ne loop by (simp add: compileTemplates_def)
  have named: "e = BaseException
                   (''Could not compile '' @ [CHR 0x27] @ name (type (component bad))
                      @ [CHR 0x27] @ '' because it is not a component.'')"
    if "components = good @ bad # rest"
      and "\<forall>c\<in>set good. isComponent (component c) \<and> entryCompiles this c"
      and "\<not> isComponent (component bad)" for good bad rest
    using compileTemplates_forEach_not_component [OF that(2,3), of rest "[]" "[]" s] loop
    unfolding that(1) by simp
  show ?thesis
    using result quiet named by auto
qed

theorem compileTemplates_not_a_component_witness:
  "(\<exists>c\<in>set [entry demoComponent, entry demoDirective]. \<not> isComponent (component c))
   \<and> isComponent (component (entry demoComponent))
   \<and> entryCompiles demoCompiler (entry demoComponent)
   \<and> \<not> isComponent (component (entry demoDirective))
   \<and> fst (compileTemplates demoCompiler [entry demoComponent, entry demoDirective] demoState) =
       Inl (BaseException
         (''Could not compile '' @ [CHR 0x27] @ ''Tip'' @ [CHR 0x27]
            @ '' because it is not a component.''))
   \<and> emitterCalls (calls (snd (compileTemplates demoCompiler
        [entry demoComponent, entry demoDirective] demoState))) = []"
proof -
  have h: "\<exists>c\<in>set [entry demoComponent, entry demoDirective]. \<not> isComponent (component c)"
    by (simp add: demo_defs)
  have good: "isComponent (component (entry demoComponent))"
    and bad: "\<not> isComponent (component (entry demoDirective))"
    by (simp_all add: demo_defs)
  have name: "name (type (component (entry demoDirective))) = ''Tip''"
    by (simp add: demo_defs)
  have empty: "emitterCalls (calls demoState) = []"
    by (simp add: demoState_def)
  have split: "[entry demoComponent, entry demoDirective]
                 = [entry demoComponent] @ entry demoDirective # []"
    by simp
  from compileTemplates_not_a_component [OF h, of demoCompiler demoState]
  have quiet: "emitterCalls (calls (snd (compileTemplates demoCompiler
        [entry demoComponent, entry demoDirective] demoState))) = emitterCalls (calls demoState)"
    and named: "\<And>good bad rest.
             [entry demoComponent, entry demoDirective] = good @ bad # rest
             \<and> (\<forall>c\<in>set good. isComponent (component c) \<and> entryCompiles demoCompiler c)
             \<and> \<not> isComponent (component bad)
           \<Longrightarrow> fst (compileTemplates demoCompiler [entry demoComponent, entry demoDirective]
                   demoState) =
                 Inl (BaseException
                   (''Could not compile '' @ [CHR 0x27] @ name (type (component bad))
                      @ [CHR 0x27] @ '' because it is not a component.''))"
    by blast+
  from named [of "[entry demoComponent]" "entry demoDirective" "[]"] good bad
    demo_entryCompiles name
  have "fst (compileTemplates demoCompiler [entry demoComponent, entry demoDirective]
          demoState) =
       Inl (BaseException
         (''Could not compile '' @ [CHR 0x27] @ ''Tip'' @ [CHR 0x27]
            @ '' because it is not a component.''))"
    by simp
  with h good bad demo_entryCompiles quiet empty show ?thesis by simp
qed

text \<open>
  C3, as stated, promises a module for every non-empty list. A list whose only entry is
  not flagged as a component is non-empty, and \<open>compileTemplates\<close> throws on it; so it
  does on a list whose only entry is a component with a template that the parser refuses.
\<close>

theorem compileTemplates_module_counterexample:
  "[entry demoDirective] \<noteq> []
   \<and> fst (compileTemplates demoCompiler [entry demoDirective] demoState) =
       Inl (BaseException
         (''Could not compile '' @ [CHR 0x27] @ ''Tip'' @ [CHR 0x27]
            @ '' because it is not a component.''))
   \<and> isComponent (component (entry demoBroken))
   \<and> fst (compileTemplates demoCompiler [entry demoBroken] demoState) =
       Inl (BaseException ''Template parse errors'')"
  using demo_parser_throws [of "[]"]
  by (simp add: compileTemplates_def compileTemplates_entry_def assertComponent_def demo_defs)

text \<open>
  C3, amended. For every non-empty list whose entries are all flagged as components and
  for which the style compiler, the template parser and the view compiler return
  normally (for every entry's component and for its host), \<open>compileTemplates\<close> returns
  one module, made by one call of the emitter, and the URL of the module (and of that
  call) is the factory module URL of the first entry's type.
\<close>

theorem compileTemplates_module:
  assumes "components \<noteq> []"
    and "\<forall>c\<in>set components. isComponent (component c) \<and> entryCompiles this c"
  shows "\<exists>m. fst (compileTemplates this components s) = Inr m
           \<and> SourceModule.moduleUrl m = ngfactoryModuleUrl (type (component (hd components)))
           \<and> map fst (emitterCalls (calls (snd (compileTemplates this components s)))) =
               map fst (emitterCalls (calls s)) @ [SourceModule.moduleUrl m]"
proof -
  from compileTemplates_forEach_components [OF assms(2), of "[]" "[]" s]
  obtain sts s' where
    loop: "compileTemplates_forEach this components ([], []) s =
             (Inr (sts, exportedSymbols this components), s')"
    by auto
  have quiet: "emitterCalls (calls s') = emitterCalls (calls s)"
    using compileTemplates_forEach_emitterCalls [of this components "([], [])" s] loop by simp
  have first: "components ! 0 = hd components"
    using assms(1) by (simp add: hd_conv_nth)
  show ?thesis
    using assms(1) loop quiet first
    by (simp add: compileTemplates_def codegenSourceModule_def called_def emitterCalls_append)
qed

theorem compileTemplates_module_witness:
  "[entry demoComponent, entry demoComponent] \<noteq> []
   \<and> isComponent (component (entry demoComponent))
   \<and> entryCompiles demoCompiler (entry demoComponent)
   \<and> (\<exists>m. fst (compileTemplates demoCompiler [entry demoComponent, entry demoComponent]
               demoState) = Inr m
           \<and> SourceModule.moduleUrl m = ''a.ngfactory.foo''
           \<and> map fst (emitterCalls (calls (snd (compileTemplates demoCompiler
                 [entry demoComponent, entry demoComponent] demoState)))) =
               [SourceModule.moduleUrl m])"
proof -
  have ne: "[entry demoComponent, entry demoComponent] \<noteq> []" by simp
  have ok: "isComponent (component (entry demoComponent))" by (simp add: demo_defs)
  with demo_entryCompiles
  have all: "\<forall>c\<in>set [entry demoComponent, entry demoComponent].
               isComponent (component c) \<and> entryCompiles demoCompiler c"
    by simp
  have url: "ngfactoryModuleUrl (type (component (hd [entry demoComponent, entry demoComponent])))
               = ''a.ngfactory.foo''"
    using splitSuffix_dot [of "''foo''" "''a''"]
    by (simp add: ngfactoryModuleUrl_def demo_defs)
  have "emitterCalls (calls demoState) = []" by (simp add: demoState_def)
  with compileTemplates_module [OF ne all, of demoState] ne ok url demo_entryCompiles
  show ?thesis by auto
qed

text \<open>
  C1, as stated, counts three exported symbols per component, for every non-empty
  list. For a batch of one component the emitter is given two: the name of the
  component's view factory and the name of its component factory. The name of the host
  view factory is used inside the component-factory declaration and is not exported. For
  a batch whose entry is not a component, or is a component with a template that the
  parser refuses, the emitter is not called at all.
\<close>

theorem compileTemplates_exports_counterexample:
  "map (snd \<circ> snd) (emitterCalls (calls (snd
      (compileTemplates demoCompiler [entry demoComponent] demoState)))) =
     [[''viewFactory_App'', ''AppNgFactory'']]
   \<and> length [''viewFactory_App'', ''AppNgFactory''] \<noteq> 3 * length [entry demoComponent]
   \<and> emitterCalls (calls (snd
        (compileTemplates demoCompiler [entry demoDirective] demoState))) = []
   \<and> emitterCalls (calls (snd
        (compileTemplates demoCompiler [entry demoBroken] demoState))) = []"
  using demo_parser_throws [of "[]"]
  by (simp add: compileTemplates_def compileTemplates_entry_def assertComponent_def
      compileComponent_def resolveStyleStatements_def resolveViewStatements_def
      codegenSourceModule_def called_def emitterCalls_append
      componentFactoryName_def demo_defs Let_def)

text \<open>
  C1, amended. For every non-empty list of N entries that are all flagged as components
  and for which the style compiler, the template parser and the view compiler return
  normally (for every entry's component and for its host), the emitter is called once,
  and the exported symbols it is given are 2 * N names: per entry, in order, the name of
  its view factory and the name of its component factory, which is the type's name
  followed by \<open>NgFactory\<close>. The host view factory's name is not among the exported
  symbols.
\<close>

theorem compileTemplates_exports:
  assumes "components \<noteq> []"
    and "\<forall>c\<in>set components. isComponent (component c) \<and> entryCompiles this c"
  shows "map (snd \<circ> snd) (emitterCalls (calls (snd (compileTemplates this components s)))) =
           map (snd \<circ> snd) (emitterCalls (calls s)) @
             [concat (map (\<lambda>cw.
                [viewFactoryVar (projr
                   (viewResultOf this (component cw) (directives cw) (pipes cw))),
                 componentFactoryName (type (component cw))]) components)]
       \<and> length (concat (map (\<lambda>cw.
                [viewFactoryVar (projr
                   (viewResultOf this (component cw) (directives cw) (pipes cw))),
                 componentFactoryName (type (component cw))]) components))
           = 2 * length components
       \<and> (\<forall>cw\<in>set components.
             componentFactoryName (type (component cw)) =
               name (type (component cw)) @ ''NgFactory'')"
proof -
  from compileTemplates_forEach_components [OF assms(2), of "[]" "[]" s]
  obtain sts s' where
    loop: "compileTemplates_forEach this components ([], []) s =
             (Inr (sts, exportedSymbols this components), s')"
    by auto
  have quiet: "emitterCalls (calls s') = emitterCalls (calls s)"
    using compileTemplates_forEach_emitterCalls [of this components "([], [])" s] loop by simp
  have calls: "map (snd \<circ> snd) (emitterCalls (calls (snd (compileTemplates this components s))))
      = map (snd \<circ> snd) (emitterCalls (calls s)) @ [exportedSymbols this components]"
    using assms(1) loop quiet
    by (simp add: compileTemplates_def codegenSourceModule_def called_def emitterCalls_append)
  have count: "length (exportedSymbols this components) = 2 * length components"
    unfolding exportedSymbols_def by (induction components) simp_all
  show ?thesis
    using calls count
    by (simp add: exportedSymbols_def componentFactoryName_def)
qed

theorem compileTemplates_exports_witness:
  "[entry demoComponent, entry demoComponent] \<noteq> []
   \<and> isComponent (component (entry demoComponent))
   \<and> entryCompiles demoCompiler (entry demoComponent)
   \<and> map (snd \<circ> snd) (emitterCalls (calls (snd
        (compileTemplates demoCompiler [entry demoComponent, entry demoComponent] demoState))))
       = [[''viewFactory_App'', ''AppNgFactory'', ''viewFactory_App'', ''AppNgFactory'']]"
proof -
  have ne: "[entry demoComponent, entry demoComponent] \<noteq> []" by simp
  have ok: "isComponent (component (entry demoComponent))" by (simp add: demo_defs)
  with demo_entryCompiles
  have all: "\<forall>c\<in>set [entry demoComponent, entry demoComponent].
               isComponent (component c) \<and> entryCompiles demoCompiler c"
    by simp
  have "emitterCalls (calls demoState) = []" by (simp add: demoState_def)
  with compileTemplates_exports [OF ne all, of demoState] ne ok demo_entryCompiles
  show ?thesis
    by (simp add: viewResultOf_def componentFactoryName_def demo_defs)
qed

text \<open>
  C4. After a \<open>compileComponent\<close> in which the style compiler, the template parser and
  the view compiler have returned, the placeholder of every stylesheet dependency of the
  component carries the styles module URL made from the dependency's URL, the
  dependency's shim flag and the suffix of the component's own module URL: the text from
  its last dot on, or the empty text when it has no dot. Nothing of the dependency's URL
  is taken as a suffix. The dependencies are assumed to hold placeholders of their own:
  no two stylesheet dependencies share one, and none is a placeholder that the view
  dependencies of the same component resolve afterwards.
\<close>

theorem compileComponent_style_dependencies:
  assumes "styleCompiler_compileComponent this compMeta = Inr styleResult"
    and "templateParser_parse this compMeta
           (CompileTemplateMetadata.template (CompileDirectiveMetadata.template compMeta))
           ds ps (name (type compMeta)) = Inr parsedTemplate"
    and "viewCompiler_compileComponent this compMeta parsedTemplate
           (o_variable (stylesVar styleResult)) ps = Inr viewResult"
    and "distinct (map valuePlaceholder (StylesCompileResult.dependencies styleResult))"
    and "set (map valuePlaceholder (StylesCompileResult.dependencies styleResult))
         \<inter> set (assignedPlaceholders (ViewCompileResult.dependencies viewResult)) = {}"
    and "dep \<in> set (StylesCompileResult.dependencies styleResult)"
  shows "CompileIdentifierMetadata.moduleUrl
           (heap (snd (compileComponent this compMeta ds ps tgt s)) (valuePlaceholder dep))
         = stylesModuleUrl (StylesCompileDependency.moduleUrl dep) (isShimmed dep)
             (splitSuffix (CompileIdentifierMetadata.moduleUrl (type compMeta)) ! 1)
       \<and> (CompileIdentifierMetadata.moduleUrl (type compMeta) = base @ CHR ''.'' # ext
            \<and> CHR ''.'' \<notin> set ext \<longrightarrow>
          splitSuffix (CompileIdentifierMetadata.moduleUrl (type compMeta)) ! 1 = CHR ''.'' # ext)
       \<and> (CHR ''.'' \<notin> set (CompileIdentifierMetadata.moduleUrl (type compMeta)) \<longrightarrow>
          splitSuffix (CompileIdentifierMetadata.moduleUrl (type compMeta)) ! 1 = [])"
proof -
  let ?sfx = "splitSuffix (CompileIdentifierMetadata.moduleUrl (type compMeta)) ! 1"
  let ?sdeps = "StylesCompileResult.dependencies styleResult"
  let ?vdeps = "ViewCompileResult.dependencies viewResult"
  let ?h1 = "fold (resolveStyleDependency ?sfx) ?sdeps (heap s)"
  have "valuePlaceholder dep \<notin> set (assignedPlaceholders ?vdeps)"
    using assms(5,6) by auto
  then have "fold resolveViewDependency ?vdeps ?h1 (valuePlaceholder dep)
               = ?h1 (valuePlaceholder dep)"
    by (rule fold_resolveViewDependency_other)
  also have "\<dots> = (heap s (valuePlaceholder dep))\<lparr>CompileIdentifierMetadata.moduleUrl :=
        stylesModuleUrl (StylesCompileDependency.moduleUrl dep) (isShimmed dep) ?sfx\<rparr>"
    using assms(4,6) by (rule fold_resolveStyleDependency_distinct)
  finally have "CompileIdentifierMetadata.moduleUrl
           (heap (snd (compileComponent this compMeta ds ps tgt s)) (valuePlaceholder dep))
         = stylesModuleUrl (StylesCompileDependency.moduleUrl dep) (isShimmed dep) ?sfx"
    by (simp add: compileComponent_returns [OF assms(1,2,3)])
  then show ?thesis
    by (simp add: splitSuffix_dot splitSuffix_no_dot)
qed

theorem compileComponent_style_dependencies_witness:
  "styleCompiler_compileComponent demoCompiler demoComponent = Inr (demoStyles ''styles'' False)
   \<and> templateParser_parse demoCompiler demoComponent
        (CompileTemplateMetadata.template (CompileDirectiveMetadata.template demoComponent))
        [] [] (name (type demoComponent)) = Inr ''<p></p>''
   \<and> viewCompiler_compileComponent demoCompiler demoComponent ''<p></p>''
        (o_variable (stylesVar (demoStyles ''styles'' False))) [] = Inr (demoView demoComponent)
   \<and> distinct (map valuePlaceholder
        (StylesCompileResult.dependencies (demoStyles ''styles'' False)))
   \<and> set (map valuePlaceholder (StylesCompileResult.dependencies (demoStyles ''styles'' False)))
      \<inter> set (assignedPlaceholders (ViewCompileResult.dependencies (demoView demoComponent)))
      = {}
   \<and> demoDep \<in> set (StylesCompileResult.dependencies (demoStyles ''styles'' False))
   \<and> CompileIdentifierMetadata.moduleUrl (type demoComponent) = ''a'' @ CHR ''.'' # ''foo''
   \<and> CHR ''.'' \<notin> set ''foo''
   \<and> CompileIdentifierMetadata.moduleUrl
        (heap (snd (compileComponent demoCompiler demoComponent [] [] [] demoState)) 0)
       = ''b.css.foo''
   \<and> CHR ''.'' \<notin> set (CompileIdentifierMetadata.moduleUrl (type demoPlain))
   \<and> CompileIdentifierMetadata.moduleUrl
        (heap (snd (compileComponent demoCompiler demoPlain [] [] [] demoState)) 0)
       = ''b.css''"
proof -
  have s: "styleCompiler_compileComponent demoCompiler cm = Inr (demoStyles ''styles'' False)"
    for cm
    by (simp add: demoCompiler_def)
  have p: "templateParser_parse demoCompiler cm
        (CompileTemplateMetadata.template (CompileDirectiveMetadata.template cm))
        [] [] (name (type cm)) = Inr ''<p></p>''"
    if "cm = demoComponent \<or> cm = demoPlain" for cm
    using that by (auto simp: demo_defs)
  have v: "viewCompiler_compileComponent demoCompiler cm ''<p></p>''
        (o_variable (stylesVar (demoStyles ''styles'' False))) [] = Inr (demoView cm)" for cm
    by (simp add: demoCompiler_def)
  have d: "distinct (map valuePlaceholder
      (StylesCompileResult.dependencies (demoStyles ''styles'' False)))"
    by (simp add: demo_defs)
  have i: "set (map valuePlaceholder (StylesCompileResult.dependencies (demoStyles ''styles'' False)))
      \<inter> set (assignedPlaceholders (ViewCompileResult.dependencies (demoView cm))) = {}" for cm
    by (simp add: demo_defs)
  have m: "demoDep \<in> set (StylesCompileResult.dependencies (demoStyles ''styles'' False))"
    by (simp add: demo_defs demoDep_def)
  have u1: "CompileIdentifierMetadata.moduleUrl (type demoComponent) = ''a'' @ CHR ''.'' # ''foo''"
    by (simp add: demo_defs)
  have u2: "CHR ''.'' \<notin> set (CompileIdentifierMetadata.moduleUrl (type demoPlain))"
    by (simp add: demo_defs)
  have e: "CHR ''.'' \<notin> set ''foo''" by simp
  from compileComponent_style_dependencies [where this = demoCompiler
      and compMeta = demoComponent and ds = "[]" and ps = "[]" and dep = demoDep
      and base = "''a''" and ext = "''foo''" and tgt = "[]" and s = demoState,
      OF s p v d i m] u1 e
  have r1: "CompileIdentifierMetadata.moduleUrl
        (heap (snd (compileComponent demoCompiler demoComponent [] [] [] demoState)) 0)
       = ''b.css.foo''"
    by (simp add: stylesModuleUrl_def demoDep_def)
  from compileComponent_style_dependencies [where this = demoCompiler
      and compMeta = demoPlain and ds = "[]" and ps = "[]" and dep = demoDep
      and base = "''a''" and ext = "''foo''" and tgt = "[]" and s = demoState,
      OF s p v d i m] u2
  have r2: "CompileIdentifierMetadata.moduleUrl
        (heap (snd (compileComponent demoCompiler demoPlain [] [] [] demoState)) 0)
       = ''b.css''"
    by (simp add: stylesModuleUrl_def demoDep_def)
  from s [of demoComponent] p [of demoComponent] v [of demoComponent] d i [of demoComponent]
    m u1 e r1 u2 r2
  show ?thesis by simp
qed

text \<open>
  C5. After \<open>resolveViewStatements\<close>, the placeholder of a view-factory dependency has
  the factory module URL of the referenced component's type as its module URL and is
  otherwise as before; the placeholder of a component-factory dependency has the
  component-factory name as its name and the factory module URL as its module URL; the
  placeholder of a dependency of neither kind, and every other object of the store, is as
  before. The statements returned are the compile result's. The dependencies are assumed
  to hold placeholders of their own.
\<close>

theorem resolveViewStatements_dependencies:
  assumes "distinct (map placeholderOf (ViewCompileResult.dependencies compileResult))"
  shows "fst (resolveViewStatements compileResult h) = ViewCompileResult.statements compileResult
     \<and> (\<forall>cmp p. ViewFactoryDependency cmp p \<in> set (ViewCompileResult.dependencies compileResult)
          \<longrightarrow> snd (resolveViewStatements compileResult h) p =
               (h p)\<lparr>CompileIdentifierMetadata.moduleUrl := ngfactoryModuleUrl (type cmp)\<rparr>)
     \<and> (\<forall>cmp p. ComponentFactoryDependency cmp p
            \<in> set (ViewCompileResult.dependencies compileResult)
          \<longrightarrow> snd (resolveViewStatements compileResult h) p =
               (h p)\<lparr>name := componentFactoryName cmp,
                      CompileIdentifierMetadata.moduleUrl := ngfactoryModuleUrl cmp\<rparr>)
     \<and> (\<forall>p. OtherDependency p \<in> set (ViewCompileResult.dependencies compileResult)
          \<longrightarrow> snd (resolveViewStatements compileResult h) p = h p)
     \<and> (\<forall>a. a \<notin> placeholderOf ` set (ViewCompileResult.dependencies compileResult)
          \<longrightarrow> snd (resolveViewStatements compileResult h) a = h a)"
proof -
  let ?deps = "ViewCompileResult.dependencies compileResult"
  have at: "d \<in> set ?deps \<Longrightarrow>
      snd (resolveViewStatements compileResult h) (placeholderOf d)
        = resolveViewDependency d h (placeholderOf d)" for d
    using fold_resolveViewDependency_distinct [OF assms, of d h]
    by (simp add: resolveViewStatements_def)
  have other: "a \<notin> placeholderOf ` set ?deps \<Longrightarrow>
      snd (resolveViewStatements compileResult h) a = h a" for a
    using set_assignedPlaceholders [of ?deps] fold_resolveViewDependency_other [of a ?deps h]
    by (auto simp: resolveViewStatements_def)
  have "fst (resolveViewStatements compileResult h) = ViewCompileResult.statements compileResult"
    by (simp add: resolveViewStatements_def)
  moreover have "ViewFactoryDependency cmp p \<in> set ?deps \<Longrightarrow>
      snd (resolveViewStatements compileResult h) p =
        (h p)\<lparr>CompileIdentifierMetadata.moduleUrl := ngfactoryModuleUrl (type cmp)\<rparr>" for cmp p
    using at [of "ViewFactoryDependency cmp p"] by simp
  moreover have "ComponentFactoryDependency cmp p \<in> set ?deps \<Longrightarrow>
      snd (resolveViewStatements compileResult h) p =
        (h p)\<lparr>name := componentFactoryName cmp,
               CompileIdentifierMetadata.moduleUrl := ngfactoryModuleUrl cmp\<rparr>" for cmp p
    using at [of "ComponentFactoryDependency cmp p"] by (simp add: Let_def)
  moreover have "OtherDependency p \<in> set ?deps \<Longrightarrow>
      snd (resolveViewStatements compileResult h) p = h p" for p
    using at [of "OtherDependency p"] by simp
  ultimately show ?thesis
    using other by blast
qed

theorem resolveViewStatements_dependencies_witness:
  "distinct (map placeholderOf (ViewCompileResult.dependencies (demoView demoComponent)))
   \<and> ViewFactoryDependency demoComponent 2
        \<in> set (ViewCompileResult.dependencies (demoView demoComponent))
   \<and> snd (resolveViewStatements (demoView demoComponent) (\<lambda>a. unresolved)) 2 =
        \<lparr>name = ''placeholder'', runtime = None, moduleUrl = ''a.ngfactory.foo''\<rparr>
   \<and> ComponentFactoryDependency (type demoComponent) 3
        \<in> set (ViewCompileResult.dependencies (demoView demoComponent))
   \<and> snd (resolveViewStatements (demoView demoComponent) (\<lambda>a. unresolved)) 3 =
        \<lparr>name = ''AppNgFactory'', runtime = None, moduleUrl = ''a.ngfactory.foo''\<rparr>
   \<and> OtherDependency 4 \<in> set (ViewCompileResult.dependencies (demoView demoComponent))
   \<and> snd (resolveViewStatements (demoView demoComponent) (\<lambda>a. unresolved)) 4 = unresolved
   \<and> 5 \<notin> placeholderOf ` set (ViewCompileResult.dependencies (demoView demoComponent))
   \<and> snd (resolveViewStatements (demoView demoComponent) (\<lambda>a. unresolved)) 5 = unresolved"
proof -
  have d: "distinct (map placeholderOf (ViewCompileResult.dependencies (demoView demoComponent)))"
    by (simp add: demo_defs)
  have url: "ngfactoryModuleUrl (type demoComponent) = ''a.ngfactory.foo''"
    using splitSuffix_dot [of "''foo''" "''a''"]
    by (simp add: ngfactoryModuleUrl_def demo_defs)
  have mem: "ViewFactoryDependency demoComponent 2
        \<in> set (ViewCompileResult.dependencies (demoView demoComponent))"
    "ComponentFactoryDependency (type demoComponent) 3
        \<in> set (ViewCompileResult.dependencies (demoView demoComponent))"
    "OtherDependency 4 \<in> set (ViewCompileResult.dependencies (demoView demoComponent))"
    "5 \<notin> placeholderOf ` set (ViewCompileResult.dependencies (demoView demoComponent))"
    by (simp_all add: demoView_def)
  from resolveViewStatements_dependencies [OF d, of "\<lambda>a. unresolved"] mem
  have "snd (resolveViewStatements (demoView demoComponent) (\<lambda>a. unresolved)) 2 =
          unresolved\<lparr>CompileIdentifierMetadata.moduleUrl := ngfactoryModuleUrl (type demoComponent)\<rparr>"
    and "snd (resolveViewStatements (demoView demoComponent) (\<lambda>a. unresolved)) 3 =
          unresolved\<lparr>name := componentFactoryName (type demoComponent),
            CompileIdentifierMetadata.moduleUrl := ngfactoryModuleUrl (type demoComponent)\<rparr>"
    and "snd (resolveViewStatements (demoView demoComponent) (\<lambda>a. unresolved)) 4 = unresolved"
    and "snd (resolveViewStatements (demoView demoComponent) (\<lambda>a. unresolved)) 5 = unresolved"
    by blast+
  with d mem url show ?thesis
    by (simp add: unresolved_def componentFactoryName_def demoComponent_def)
qed

text \<open>
  C8. When the fetch of \<open>loadAndCompileStylesheet\<close> resolves, the style compiler is
  given the shim flag, and afterwards the placeholder of every dependency it reports
  carries the styles module URL made from the dependency's URL, the dependency's shim
  flag and the caller's suffix: the URL, then \<open>.shim\<close> when shimmed, then the suffix.
  The dependencies are assumed to hold placeholders of their own.
\<close>

theorem loadAndCompileStylesheet_dependencies:
  assumes "xhr_get this stylesheetUrl = Resolved cssText"
    and "distinct (map valuePlaceholder (StylesCompileResult.dependencies
           (styleCompiler_compileStylesheet this stylesheetUrl cssText shim)))"
    and "dep \<in> set (StylesCompileResult.dependencies
           (styleCompiler_compileStylesheet this stylesheetUrl cssText shim))"
  shows "CompileIdentifierMetadata.moduleUrl
           (heap (snd (loadAndCompileStylesheet this stylesheetUrl shim suffix s))
              (valuePlaceholder dep))
         = stylesModuleUrl (StylesCompileDependency.moduleUrl dep) (isShimmed dep) suffix
       \<and> stylesModuleUrl (StylesCompileDependency.moduleUrl dep) (isShimmed dep) suffix
         = (if isShimmed dep then StylesCompileDependency.moduleUrl dep @ ''.shim'' @ suffix
            else StylesCompileDependency.moduleUrl dep @ suffix)"
proof -
  let ?deps = "StylesCompileResult.dependencies
                 (styleCompiler_compileStylesheet this stylesheetUrl cssText shim)"
  have "heap (snd (loadAndCompileStylesheet this stylesheetUrl shim suffix s))
          = fold (resolveStyleDependency suffix) ?deps (heap s)"
    by (simp add: loadAndCompileStylesheet_eq [OF assms(1)] Let_def)
  then have "heap (snd (loadAndCompileStylesheet this stylesheetUrl shim suffix s))
               (valuePlaceholder dep)
          = (heap s (valuePlaceholder dep))\<lparr>CompileIdentifierMetadata.moduleUrl :=
               stylesModuleUrl (StylesCompileDependency.moduleUrl dep) (isShimmed dep) suffix\<rparr>"
    using fold_resolveStyleDependency_distinct [OF assms(2,3), of suffix "heap s"] by simp
  then show ?thesis
    by (simp add: stylesModuleUrl_def)
qed

theorem loadAndCompileStylesheet_dependencies_witness:
  "xhr_get demoCompiler ''x.css'' = Resolved ''p {}''
   \<and> distinct (map valuePlaceholder (StylesCompileResult.dependencies
        (styleCompiler_compileStylesheet demoCompiler ''x.css'' ''p {}'' False)))
   \<and> demoDep \<in> set (StylesCompileResult.dependencies
        (styleCompiler_compileStylesheet demoCompiler ''x.css'' ''p {}'' False))
   \<and> CompileIdentifierMetadata.moduleUrl
        (heap (snd (loadAndCompileStylesheet demoCompiler ''x.css'' False ''.ts'' demoState)) 0)
       = ''b.css.ts''
   \<and> demoShimmedDep \<in> set (StylesCompileResult.dependencies
        (styleCompiler_compileStylesheet demoCompiler ''x.css'' ''p {}'' False))
   \<and> CompileIdentifierMetadata.moduleUrl
        (heap (snd (loadAndCompileStylesheet demoCompiler ''x.css'' False ''.ts'' demoState)) 1)
       = ''lib/c.css.shim.ts''"
proof -
  have x: "xhr_get demoCompiler ''x.css'' = Resolved ''p {}''"
    by (simp add: demoCompiler_def)
  have d: "distinct (map valuePlaceholder (StylesCompileResult.dependencies
        (styleCompiler_compileStylesheet demoCompiler ''x.css'' ''p {}'' False)))"
    by (simp add: demoCompiler_def demoStyles_def)
  have m1: "demoDep \<in> set (StylesCompileResult.dependencies
        (styleCompiler_compileStylesheet demoCompiler ''x.css'' ''p {}'' False))"
    by (simp add: demoCompiler_def demoStyles_def demoDep_def)
  have m2: "demoShimmedDep \<in> set (StylesCompileResult.dependencies
        (styleCompiler_compileStylesheet demoCompiler ''x.css'' ''p {}'' False))"
    by (simp add: demoCompiler_def demoStyles_def demoShimmedDep_def)
  from loadAndCompileStylesheet_dependencies [OF x d m1, of "''.ts''" demoState]
  have r1: "CompileIdentifierMetadata.moduleUrl
        (heap (snd (loadAndCompileStylesheet demoCompiler ''x.css'' False ''.ts'' demoState)) 0)
       = ''b.css.ts''"
    by (simp add: demoDep_def)
  from loadAndCompileStylesheet_dependencies [OF x d m2, of "''.ts''" demoState]
  have r2: "CompileIdentifierMetadata.moduleUrl
        (heap (snd (loadAndCompileStylesheet demoCompiler ''x.css'' False ''.ts'' demoState)) 1)
       = ''lib/c.css.shim.ts''"
    by (simp add: demoShimmedDep_def)
  from x d m1 r1 m2 r2 show ?thesis by blast
qed

text \<open>
  C9. When the fetch resolves, \<open>loadAndCompileStylesheet\<close> resolves with the imported
  URLs being the module URLs of the style compiler's dependencies, in the compiler's
  order, whatever the placeholders are resolved to.
\<close>

theorem loadAndCompileStylesheet_importedUrls:
  assumes "xhr_get this stylesheetUrl = Resolved cssText"
  shows "\<exists>r. fst (loadAndCompileStylesheet this stylesheetUrl shim suffix s) = Resolved r
           \<and> importedUrls r =
               map StylesCompileDependency.moduleUrl (StylesCompileResult.dependencies
                 (styleCompiler_compileStylesheet this stylesheetUrl cssText shim))"
  by (simp add: loadAndCompileStylesheet_eq [OF assms] Let_def)

theorem loadAndCompileStylesheet_importedUrls_witness:
  "xhr_get demoCompiler ''x.css'' = Resolved ''p {}''
   \<and> (\<exists>r. fst (loadAndCompileStylesheet demoCompiler ''x.css'' True ''.ts'' demoState)
             = Resolved r
          \<and> importedUrls r = [''b.css'', ''lib/c.css''])"
proof -
  have x: "xhr_get demoCompiler ''x.css'' = Resolved ''p {}''"
    by (simp add: demoCompiler_def)
  from loadAndCompileStylesheet_importedUrls [OF x, of True "''.ts''" demoState] x
  show ?thesis
    by (simp add: demoCompiler_def demoStyles_def)
qed

text \<open>
  C10. When the fetch resolves, \<open>loadAndCompileStylesheet\<close> resolves with a module whose
  URL is the styles module URL of the stylesheet URL, the shim flag and the suffix; the
  module is made by one call of the emitter, for that URL, with the style compiler's
  statements and with the one exported symbol \<open>stylesVar\<close>.
\<close>

theorem loadAndCompileStylesheet_module:
  assumes "xhr_get this stylesheetUrl = Resolved cssText"
  shows "\<exists>r. fst (loadAndCompileStylesheet this stylesheetUrl shim suffix s) = Resolved r
           \<and> SourceModule.moduleUrl (StyleSheetSourceWithImports.source r) =
               stylesModuleUrl stylesheetUrl shim suffix
           \<and> emitterCalls (calls (snd (loadAndCompileStylesheet this stylesheetUrl shim
                 suffix s))) =
               emitterCalls (calls s) @
                 [(stylesModuleUrl stylesheetUrl shim suffix,
                   StylesCompileResult.statements
                     (styleCompiler_compileStylesheet this stylesheetUrl cssText shim),
                   [stylesVar (styleCompiler_compileStylesheet this stylesheetUrl cssText
                      shim)])]"
  by (simp add: loadAndCompileStylesheet_eq [OF assms] Let_def emitterCalls_append)

theorem loadAndCompileStylesheet_module_witness:
  "xhr_get demoCompiler ''x.css'' = Resolved ''p {}''
   \<and> (\<exists>r. fst (loadAndCompileStylesheet demoCompiler ''x.css'' True ''.ts'' demoState)
             = Resolved r
          \<and> SourceModule.moduleUrl (StyleSheetSourceWithImports.source r) = ''x.css.shim.ts''
          \<and> emitterCalls (calls (snd (loadAndCompileStylesheet demoCompiler ''x.css'' True
                ''.ts'' demoState))) =
              [(''x.css.shim.ts'', [CompiledStmt ''styles''], [''styles''])])"
proof -
  have x: "xhr_get demoCompiler ''x.css'' = Resolved ''p {}''"
    by (simp add: demoCompiler_def)
  have "emitterCalls (calls demoState) = []" by (simp add: demoState_def)
  with loadAndCompileStylesheet_module [OF x, of True "''.ts''" demoState] x
  show ?thesis
    by (simp add: demoCompiler_def demoStyles_def stylesModuleUrl_def)
qed

end
